theory Spec2Isabelle
  imports Main
begin

section \<open>The root schema (schema.js)\<close>

subsection \<open>Type definitions in schema language\<close>

text \<open>
  A type reference of the schema language: a named type, \<open>T!\<close> (non-null) or \<open>[T]\<close>
  (list).
\<close>

datatype gql_type = Named string | NonNull gql_type | ListOf gql_type

text \<open>One field of a root type: its name, its arguments in order, its result type.\<close>

record field_def =
  fname :: string
  fargs :: "(string \<times> gql_type) list"
  ftype :: gql_type

definition fld :: "string \<Rightarrow> (string \<times> gql_type) list \<Rightarrow> gql_type \<Rightarrow> field_def" where
  "fld n as t = \<lparr>fname = n, fargs = as, ftype = t\<rparr>"

abbreviation ID_t :: gql_type where "ID_t \<equiv> Named ''ID''"
abbreviation String_t :: gql_type where "String_t \<equiv> Named ''String''"
abbreviation Int_t :: gql_type where "Int_t \<equiv> Named ''Int''"
abbreviation Session_t :: gql_type where "Session_t \<equiv> Named ''Session''"
abbreviation Question_t :: gql_type where "Question_t \<equiv> Named ''Question''"
abbreviation User_t :: gql_type where "User_t \<equiv> Named ''User''"

text \<open>\<open>type Query { ... }\<close>\<close>

definition typeDefs_Query :: "field_def list" where
  "typeDefs_Query =
   [ fld ''activeInstances'' [] (NonNull (ListOf (Named ''QuestionInstance''))),
     fld ''allQuestions'' [] (NonNull (ListOf Question_t)),
     fld ''allSessions'' [] (NonNull (ListOf Session_t)),
     fld ''allTags'' [] (NonNull (ListOf (Named ''Tag''))),
     fld ''checkAvailability'' [(''email'', String_t), (''shortname'', String_t)]
       (NonNull (Named ''User_Availability'')),
     fld ''joinSession'' [(''shortname'', NonNull String_t)] (Named ''Session_Public''),
     fld ''question'' [(''id'', NonNull ID_t)] Question_t,
     fld ''runningSession'' [] Session_t,
     fld ''session'' [(''id'', NonNull ID_t)] Session_t,
     fld ''sessionPublic'' [(''id'', NonNull ID_t)] (Named ''Session_PublicEvaluation''),
     fld ''user'' [] User_t ]"

text \<open>\<open>type Mutation { ... }\<close>\<close>

definition typeDefs_Mutation :: "field_def list" where
  "typeDefs_Mutation =
   [ fld ''activateAccount'' [(''activationToken'', NonNull String_t)] (NonNull String_t),
     fld ''activateNextBlock'' [] (NonNull Session_t),
     fld ''addConfusionTS''
       [(''fp'', ID_t), (''sessionId'', NonNull ID_t), (''difficulty'', NonNull Int_t),
        (''speed'', NonNull Int_t)] (NonNull String_t),
     fld ''addFeedback''
       [(''fp'', ID_t), (''sessionId'', NonNull ID_t), (''content'', NonNull String_t)]
       (NonNull String_t),
     fld ''addResponse''
       [(''fp'', ID_t), (''instanceId'', NonNull ID_t),
        (''response'', NonNull (Named ''QuestionInstance_ResponseInput''))] (NonNull String_t),
     fld ''archiveQuestions'' [(''ids'', NonNull (ListOf (NonNull ID_t)))]
       (NonNull (ListOf (NonNull Question_t))),
     fld ''changePassword'' [(''newPassword'', NonNull String_t)] (NonNull User_t),
     fld ''createQuestion'' [(''question'', NonNull (Named ''QuestionInput''))]
       (NonNull Question_t),
     fld ''createSession'' [(''session'', NonNull (Named ''SessionInput''))] (NonNull Session_t),
     fld ''createUser''
       [(''email'', NonNull String_t), (''password'', NonNull String_t),
        (''shortname'', NonNull String_t), (''institution'', NonNull String_t),
        (''useCase'', String_t)] (NonNull User_t),
     fld ''deleteFeedback'' [(''sessionId'', NonNull ID_t), (''feedbackId'', NonNull ID_t)]
       (NonNull Session_t),
     fld ''deleteQuestions'' [(''ids'', NonNull (ListOf (NonNull ID_t)))] (NonNull String_t),
     fld ''deleteResponse'' [(''instanceId'', NonNull ID_t), (''response'', NonNull String_t)]
       (NonNull String_t),
     fld ''deleteSessions'' [(''ids'', NonNull (ListOf (NonNull ID_t)))] (NonNull String_t),
     fld ''endSession'' [(''id'', NonNull ID_t)] (NonNull Session_t),
     fld ''login'' [(''email'', NonNull String_t), (''password'', NonNull String_t)] (NonNull ID_t),
     fld ''logout'' [] (NonNull String_t),
     fld ''modifyQuestion''
       [(''id'', NonNull ID_t), (''question'', NonNull (Named ''QuestionModifyInput''))]
       (NonNull Question_t),
     fld ''modifySession''
       [(''id'', NonNull ID_t), (''session'', NonNull (Named ''SessionModifyInput''))]
       (NonNull Session_t),
     fld ''modifyUser'' [(''user'', NonNull (Named ''User_Modify''))] (NonNull User_t),
     fld ''pauseSession'' [(''id'', NonNull ID_t)] (NonNull Session_t),
     fld ''cancelSession'' [(''id'', NonNull ID_t)] (NonNull Session_t),
     fld ''requestAccountDeletion'' [] (NonNull String_t),
     fld ''resolveAccountDeletion'' [(''deletionToken'', NonNull String_t)] (NonNull String_t),
     fld ''requestPassword'' [(''email'', NonNull String_t)] (NonNull String_t),
     fld ''requestPresignedURL'' [(''fileType'', NonNull String_t)]
       (NonNull (Named ''File_PresignedURL'')),
     fld ''startSession'' [(''id'', NonNull ID_t)] (NonNull Session_t),
     fld ''updateSessionSettings''
       [(''sessionId'', NonNull ID_t), (''settings'', NonNull (Named ''Session_SettingsInput''))]
       (NonNull Session_t) ]"

text \<open>\<open>type Subscription { ... }\<close>\<close>

definition typeDefs_Subscription :: "field_def list" where
  "typeDefs_Subscription =
   [ fld ''confusionAdded'' [(''sessionId'', NonNull ID_t)]
       (Named ''Session_ConfusionTimestep''),
     fld ''feedbackAdded'' [(''sessionId'', NonNull ID_t)] (Named ''Session_Feedback'') ]"

text \<open>Looking a field up by name, and the arguments a caller has to supply.\<close>

definition field_of :: "field_def list \<Rightarrow> string \<Rightarrow> field_def option" where
  "field_of fs n = find (\<lambda>f. fname f = n) fs"

fun is_NonNull :: "gql_type \<Rightarrow> bool" where
  "is_NonNull (NonNull _) = True"
| "is_NonNull _ = False"

definition required_args :: "field_def \<Rightarrow> string list" where
  "required_args f = map fst (filter (\<lambda>a. is_NonNull (snd a)) (fargs f))"

subsection \<open>Resolver map\<close>

text \<open>
  The right-hand side of an entry of the \<open>resolvers\<close> object: an imported resolver
  function, named by its identifier, or \<open>requireAuth(...)\<close> applied to one. The shorthand
  entry \<open>joinSession,\<close> is \<open>joinSession: joinSession\<close>.
\<close>

datatype rexpr = Ref string | RequireAuth rexpr

definition resolvers_Query :: "(string \<times> rexpr) list" where
  "resolvers_Query =
   [ (''allQuestions'', RequireAuth (Ref ''allQuestions'')),
     (''allSessions'', RequireAuth (Ref ''allSessions'')),
     (''allTags'', RequireAuth (Ref ''allTags'')),
     (''checkAvailability'', Ref ''checkAvailability''),
     (''joinSession'', Ref ''joinSession''),
     (''question'', RequireAuth (Ref ''question'')),
     (''runningSession'', RequireAuth (Ref ''runningSession'')),
     (''session'', RequireAuth (Ref ''session'')),
     (''sessionPublic'', Ref ''session''),
     (''user'', RequireAuth (Ref ''authUser'')) ]"

definition resolvers_Mutation :: "(string \<times> rexpr) list" where
  "resolvers_Mutation =
   [ (''activateAccount'', Ref ''activateAccount''),
     (''archiveQuestions'', RequireAuth (Ref ''archiveQuestions'')),
     (''addFeedback'', Ref ''addFeedback''),
     (''deleteFeedback'', RequireAuth (Ref ''deleteFeedback'')),
     (''addConfusionTS'', Ref ''addConfusionTS''),
     (''addResponse'', Ref ''addResponse''),
     (''changePassword'', RequireAuth (Ref ''changePassword'')),
     (''createQuestion'', RequireAuth (Ref ''createQuestion'')),
     (''createSession'', RequireAuth (Ref ''createSession'')),
     (''createUser'', Ref ''createUser''),
     (''deleteQuestions'', RequireAuth (Ref ''deleteQuestions'')),
     (''deleteResponse'', RequireAuth (Ref ''deleteResponse'')),
     (''deleteSessions'', RequireAuth (Ref ''deleteSessions'')),
     (''endSession'', RequireAuth (Ref ''endSession'')),
     (''login'', Ref ''login''),
     (''logout'', Ref ''logout''),
     (''modifyQuestion'', RequireAuth (Ref ''modifyQuestion'')),
     (''modifySession'', RequireAuth (Ref ''modifySession'')),
     (''modifyUser'', RequireAuth (Ref ''modifyUser'')),
     (''pauseSession'', RequireAuth (Ref ''pauseSession'')),
     (''cancelSession'', RequireAuth (Ref ''cancelSession'')),
     (''requestAccountDeletion'', RequireAuth (Ref ''requestAccountDeletion'')),
     (''resolveAccountDeletion'', RequireAuth (Ref ''resolveAccountDeletion'')),
     (''requestPassword'', Ref ''requestPassword''),
     (''requestPresignedURL'', RequireAuth (Ref ''requestPresignedURL'')),
     (''startSession'', RequireAuth (Ref ''startSession'')),
     (''updateSessionSettings'', RequireAuth (Ref ''updateSessionSettings'')),
     (''activateNextBlock'', RequireAuth (Ref ''activateNextBlock'')) ]"

definition resolvers_Subscription :: "(string \<times> rexpr) list" where
  "resolvers_Subscription =
   [ (''confusionAdded'', Ref ''confusionAdded''),
     (''feedbackAdded'', Ref ''feedbackAdded'') ]"

subsection \<open>Calling a resolver\<close>

text \<open>
  A resolver function takes \<open>(parentValue, args, context)\<close> and returns a value or
  throws.
\<close>

datatype error = NotAuthenticated | Thrown string

type_synonym ('p, 'a, 'c, 'r) resolver = "'p \<Rightarrow> 'a \<Rightarrow> 'c \<Rightarrow> error + 'r"

text \<open>
  Modelled from the spec: \<open>requireAuth\<close> of \<open>./services/accounts\<close>, whose body is not
  among the sources. The spec treats credential validation as an opaque "authenticated
  owner" predicate that has to pass before an owner-scoped operation is invoked; the
  predicate is the parameter \<open>authenticated\<close>, read on the request context, and the
  wrapped resolver runs only when it holds.
\<close>

definition requireAuth ::
  "('c \<Rightarrow> bool) \<Rightarrow> ('p, 'a, 'c, 'r) resolver \<Rightarrow> ('p, 'a, 'c, 'r) resolver" where
  "requireAuth authenticated wrapped =
     (\<lambda>parentValue args context.
        if authenticated context then wrapped parentValue args context
        else Inl NotAuthenticated)"

text \<open>
  The function an entry denotes, given the imported resolver functions \<open>imported\<close>
  (by identifier).
\<close>

fun denote ::
  "('c \<Rightarrow> bool) \<Rightarrow> (string \<Rightarrow> ('p, 'a, 'c, 'r) resolver) \<Rightarrow> rexpr
   \<Rightarrow> ('p, 'a, 'c, 'r) resolver" where
  "denote authenticated imported (Ref f) = imported f"
| "denote authenticated imported (RequireAuth e) =
     requireAuth authenticated (denote authenticated imported e)"

text \<open>
  Executing the root field \<open>n\<close> of a resolver table: \<open>None\<close> when the table has no such
  entry.
\<close>

definition invoke ::
  "('c \<Rightarrow> bool) \<Rightarrow> (string \<Rightarrow> ('p, 'a, 'c, 'r) resolver) \<Rightarrow> (string \<times> rexpr) list
   \<Rightarrow> string \<Rightarrow> 'p \<Rightarrow> 'a \<Rightarrow> 'c \<Rightarrow> (error + 'r) option" where
  "invoke authenticated imported table n parentValue args context =
     (case map_of table n of
        None \<Rightarrow> None
      | Some e \<Rightarrow> Some (denote authenticated imported e parentValue args context))"

text \<open>Whether an entry applies the guard.\<close>

fun guarded :: "rexpr \<Rightarrow> bool" where
  "guarded (Ref _) = False"
| "guarded (RequireAuth _) = True"

text \<open>Whether a table binds the name \<open>n\<close> without, or with, the guard.\<close>

definition unguarded_in :: "(string \<times> rexpr) list \<Rightarrow> string \<Rightarrow> bool" where
  "unguarded_in table n = (case map_of table n of None \<Rightarrow> False | Some e \<Rightarrow> \<not> guarded e)"

definition guarded_in :: "(string \<times> rexpr) list \<Rightarrow> string \<Rightarrow> bool" where
  "guarded_in table n = (case map_of table n of None \<Rightarrow> False | Some e \<Rightarrow> guarded e)"

text \<open>The operations of the external interface, by category.\<close>

definition owner_write_ops :: "string list" where
  "owner_write_ops =
   [''createSession'', ''startSession'', ''pauseSession'', ''cancelSession'', ''endSession'',
    ''activateNextBlock'', ''updateSessionSettings'', ''modifySession'', ''deleteSessions'',
    ''deleteResponse'', ''deleteFeedback'']"

definition participant_write_ops :: "string list" where
  "participant_write_ops = [''addResponse'', ''addConfusionTS'', ''addFeedback'']"

definition write_ops :: "string list" where
  "write_ops =
   [''createSession'', ''startSession'', ''pauseSession'', ''cancelSession'', ''endSession'',
    ''activateNextBlock'', ''updateSessionSettings'', ''modifySession'', ''deleteSessions'',
    ''addResponse'', ''deleteResponse'', ''addConfusionTS'', ''addFeedback'',
    ''deleteFeedback'']"

definition read_ops :: "string list" where
  "read_ops = [''allSessions'', ''runningSession'', ''session'', ''joinSession'', ''sessionPublic'']"

definition subscription_ops :: "string list" where
  "subscription_ops = [''confusionAdded'', ''feedbackAdded'']"

text \<open>The imported function an entry ends up calling.\<close>

fun target :: "rexpr \<Rightarrow> string" where
  "target (Ref f) = f"
| "target (RequireAuth e) = target e"

subsection \<open>Resolving the type of a result aggregate\<close>

text \<open>
  JavaScript values as far as \<open>__resolveType\<close> looks at them; an object is its list of
  own properties.
\<close>

datatype jsval =
    JUndefined
  | JNull
  | JBool bool
  | JNum int
  | JStr string
  | JArr "jsval list"
  | JObj "(string \<times> jsval) list"

text \<open>What \<open>if (v)\<close> tests.\<close>

fun truthy :: "jsval \<Rightarrow> bool" where
  "truthy JUndefined = False"
| "truthy JNull = False"
| "truthy (JBool b) = b"
| "truthy (JNum n) = (n \<noteq> 0)"
| "truthy (JStr s) = (s \<noteq> [])"
| "truthy (JArr _) = True"
| "truthy (JObj _) = True"

text \<open>\<open>obj.k\<close> on an object: \<open>undefined\<close> when there is no such property.\<close>

definition get_prop :: "(string \<times> jsval) list \<Rightarrow> string \<Rightarrow> jsval" where
  "get_prop obj k = (case map_of obj k of None \<Rightarrow> JUndefined | Some v \<Rightarrow> v)"

text \<open>Whether the object has the property at all (\<open>k in obj\<close>).\<close>

definition has_prop :: "(string \<times> jsval) list \<Rightarrow> string \<Rightarrow> bool" where
  "has_prop obj k = (map_of obj k \<noteq> None)"

text \<open>
  \<open>QuestionInstance_Results.__resolveType(obj)\<close>: the name of the concrete type, or
  \<open>null\<close> (\<open>None\<close>).
\<close>

definition QuestionInstance_Results_resolveType :: "(string \<times> jsval) list \<Rightarrow> string option" where
  "QuestionInstance_Results_resolveType obj =
     (if truthy (get_prop obj ''FREE'') then Some ''FREEQuestionResults''
      else if truthy (get_prop obj ''CHOICES'') then Some ''SCQuestionResults''
      else None)"

text \<open>
  Modelled from the spec: the result aggregate of a question instance, whose creation is
  not among the sources. It has one of two shapes (4.3): a mapping from choice key to
  count, under the tag \<open>CHOICES\<close>, or an ordered list of free-text entries, under the tag
  \<open>FREE\<close>. A mapping or a list is a JavaScript object or array; a results object carries
  at most one of the two tags, and a tag it carries holds such an aggregate.
\<close>

fun is_aggregate :: "jsval \<Rightarrow> bool" where
  "is_aggregate (JArr _) = True"
| "is_aggregate (JObj _) = True"
| "is_aggregate _ = False"

definition results_object :: "(string \<times> jsval) list \<Rightarrow> bool" where
  "results_object obj =
     (\<not> (has_prop obj ''FREE'' \<and> has_prop obj ''CHOICES'') \<and>
      (has_prop obj ''FREE'' \<longrightarrow> is_aggregate (get_prop obj ''FREE'')) \<and>
      (has_prop obj ''CHOICES'' \<longrightarrow> is_aggregate (get_prop obj ''CHOICES'')))"

subsection \<open>Joining a session\<close>

text \<open>
  Modelled from the spec: the lifecycle states of a session (4.1); the session model is
  not among the sources.
\<close>

datatype session_status = CREATED | RUNNING | PAUSED | ENDED | CANCELLED

text \<open>
  Modelled from the spec: a session as the data model has it (3), the question blocks
  left abstract.
\<close>

record 'b session =
  sessionId :: string
  owner :: string
  joinCode :: string
  blocks :: "'b list"
  activeBlock :: "nat option"
  status :: session_status

text \<open>
  Modelled from the spec: join codes are compared case-insensitively; \<open>lower\<close> is the
  lower-casing of ASCII letters.
\<close>

definition lower :: "char \<Rightarrow> char" where
  "lower c =
     (case map_of (zip ''ABCDEFGHIJKLMNOPQRSTUVWXYZ'' ''abcdefghijklmnopqrstuvwxyz'') c of
        None \<Rightarrow> c
      | Some l \<Rightarrow> l)"

definition same_code :: "string \<Rightarrow> string \<Rightarrow> bool" where
  "same_code a b = (map lower a = map lower b)"

text \<open>
  Modelled from the spec: \<open>joinSession\<close> of \<open>./resolvers/sessions\<close>, which is not among
  the sources; the spec calls it \<open>joinPublic(code)\<close> (4.1): a case-insensitive lookup by
  join code that returns the read-restricted public projection of the session only if
  its status is RUNNING or PAUSED, and not-found (\<open>None\<close>, the \<open>null\<close> of the nullable
  \<open>Session_Public\<close>) otherwise. The projection itself is the parameter \<open>public\<close>.
\<close>

definition joinPublic :: "('b session \<Rightarrow> 'v) \<Rightarrow> 'b session list \<Rightarrow> string \<Rightarrow> 'v option" where
  "joinPublic public sessions code =
     (case find (\<lambda>s. same_code (joinCode s) code) sessions of
        None \<Rightarrow> None
      | Some s \<Rightarrow>
          if status s = RUNNING \<or> status s = PAUSED then Some (public s) else None)"

section \<open>The server (server.js)\<close>

subsection \<open>Start-up\<close>

text \<open>
  What the start-up script does to the outside, in order. \<open>process.exit\<close> ends the
  process, so nothing follows an \<open>Exit\<close>.
\<close>

datatype effect =
    Warn string
  | Exit nat
  | Connect string
  | Use string
  | Listen nat

text \<open>\<open>process.env.k\<close>: the variable's string, or \<open>undefined\<close>.\<close>

definition getenv :: "(string \<rightharpoonup> string) \<Rightarrow> string \<Rightarrow> jsval" where
  "getenv env k = (case env k of None \<Rightarrow> JUndefined | Some v \<Rightarrow> JStr v)"

text \<open>A value inside a template literal.\<close>

fun template :: "jsval \<Rightarrow> string" where
  "template (JStr s) = s"
| "template JUndefined = ''undefined''"
| "template JNull = ''null''"
| "template (JBool b) = (if b then ''true'' else ''false'')"
| "template _ = ''[object]''"

definition startup :: "(string \<rightharpoonup> string) \<Rightarrow> effect list" where
  "startup env =
     (if \<not> truthy (getenv env ''MONGO_URL'') then
        [Warn ''> Error: Please pass the MONGO_URL as an environment variable.'', Exit 1]
      else if \<not> truthy (getenv env ''JWT_SECRET'') then
        [Warn ''> Error: Please pass the JWT_SECRET as an environment variable.'', Exit 1]
      else
        [Connect (''mongodb://'' @ template (getenv env ''MONGO_URL'')),
         Use ''/graphql'',
         Listen 3000])"

subsection \<open>Token extraction\<close>


text \<open>\<open>s.split(sep)\<close> for a one-character separator.\<close>

fun split :: "char \<Rightarrow> string \<Rightarrow> string list" where
  "split sep [] = [[]]"
| "split sep (c # cs) =
     (if c = sep then [] # split sep cs
      else (case split sep cs of [] \<Rightarrow> [[c]] | w # ws \<Rightarrow> (c # w) # ws))"









section \<open>Properties of the resolver map\<close>

lemma invoke_guarded_ref:
  assumes "map_of table n = Some (RequireAuth (Ref f))"
  shows "invoke authenticated imported table n pv args ctx =
           Some (if authenticated ctx then imported f pv args ctx else Inl NotAuthenticated)"
  using assms by (simp add: invoke_def requireAuth_def)

lemma invoke_plain_ref:
  assumes "map_of table n = Some (Ref f)"
  shows "invoke authenticated imported table n pv args ctx = Some (imported f pv args ctx)"
  using assms by (simp add: invoke_def)

lemma owner_write_entries:
  "\<forall>n \<in> set owner_write_ops. map_of resolvers_Mutation n = Some (RequireAuth (Ref n))"
  by (simp add: owner_write_ops_def resolvers_Mutation_def)

lemma participant_write_entries:
  "\<forall>n \<in> set participant_write_ops. map_of resolvers_Mutation n = Some (Ref n)"
  by (simp add: participant_write_ops_def resolvers_Mutation_def)

lemma subscription_entries:
  "\<forall>n \<in> set subscription_ops. map_of resolvers_Subscription n = Some (Ref n)"
  by (simp add: subscription_ops_def resolvers_Subscription_def)

lemma query_session_entries:
  "map_of resolvers_Query ''session'' = Some (RequireAuth (Ref ''session''))"
  "map_of resolvers_Query ''sessionPublic'' = Some (Ref ''session'')"
  "map_of resolvers_Query ''joinSession'' = Some (Ref ''joinSession'')"
  "map_of resolvers_Query ''allSessions'' = Some (RequireAuth (Ref ''allSessions''))"
  "map_of resolvers_Query ''runningSession'' = Some (RequireAuth (Ref ''runningSession''))"
  by (simp_all add: resolvers_Query_def)

text \<open>
  C1. Each of the eleven owner-scoped write operations is bound in \<open>resolvers.Mutation\<close>
  to \<open>requireAuth\<close> applied to the resolver of the same name, so that executing it runs
  the resolver exactly when the authenticated-owner predicate holds of the context and
  otherwise fails with the guard's error, whatever the resolver is. Each of the three
  participant-issued write operations is bound to the bare resolver, and executing it
  runs the resolver whatever the predicate says.
\<close>

theorem owner_writes_require_auth:
  "(\<forall>n \<in> set owner_write_ops.
      map_of resolvers_Mutation n = Some (RequireAuth (Ref n)) \<and>
      (\<forall>authenticated imported pv args ctx.
         invoke authenticated imported resolvers_Mutation n pv args ctx =
           Some (if authenticated ctx then imported n pv args ctx else Inl NotAuthenticated))) \<and>
   (\<forall>n \<in> set participant_write_ops.
      map_of resolvers_Mutation n = Some (Ref n) \<and>
      (\<forall>authenticated imported pv args ctx.
         invoke authenticated imported resolvers_Mutation n pv args ctx =
           Some (imported n pv args ctx)))"
  using owner_write_entries participant_write_entries
  by (simp add: invoke_def requireAuth_def)

theorem owner_writes_require_auth_witness:
  "''startSession'' \<in> set owner_write_ops \<and>
   invoke (\<lambda>c. c) (\<lambda>f (pv::unit) (args::unit) (c::bool). Inr f) resolvers_Mutation
     ''startSession'' () () False = Some (Inl NotAuthenticated) \<and>
   invoke (\<lambda>c. c) (\<lambda>f (pv::unit) (args::unit) (c::bool). Inr f) resolvers_Mutation
     ''startSession'' () () True = Some (Inr ''startSession'') \<and>
   ''addResponse'' \<in> set participant_write_ops \<and>
   invoke (\<lambda>c. c) (\<lambda>f (pv::unit) (args::unit) (c::bool). Inr f) resolvers_Mutation
     ''addResponse'' () () False = Some (Inr ''addResponse'')"
proof -
  have o: "''startSession'' \<in> set owner_write_ops"
    by (simp add: owner_write_ops_def)
  have p: "''addResponse'' \<in> set participant_write_ops"
    by (simp add: participant_write_ops_def)
  note g = owner_writes_require_auth [THEN conjunct1, THEN bspec, OF o, THEN conjunct2]
  note u = owner_writes_require_auth [THEN conjunct2, THEN bspec, OF p, THEN conjunct2]
  show ?thesis using o p by (simp add: g u)
qed

text \<open>
  C2. Among the five read operations, the ones bound in \<open>resolvers.Query\<close> without the
  guard are exactly \<open>joinSession\<close> and \<open>sessionPublic\<close>: executing either runs its resolver
  for every context, authenticated or not. The other three are bound through
  \<open>requireAuth\<close>: for a context of which the predicate does not hold they fail with the
  guard's error and their resolver is not run.
\<close>

theorem anonymous_reads_exactly_two:
  "filter (unguarded_in resolvers_Query) read_ops = [''joinSession'', ''sessionPublic''] \<and>
   filter (guarded_in resolvers_Query) read_ops =
     [''allSessions'', ''runningSession'', ''session''] \<and>
   (\<forall>authenticated imported pv args ctx.
      invoke authenticated imported resolvers_Query ''joinSession'' pv args ctx =
        Some (imported ''joinSession'' pv args ctx) \<and>
      invoke authenticated imported resolvers_Query ''sessionPublic'' pv args ctx =
        Some (imported ''session'' pv args ctx)) \<and>
   (\<forall>n \<in> {''allSessions'', ''runningSession'', ''session''}.
      \<forall>authenticated imported pv args ctx.
        invoke authenticated imported resolvers_Query n pv args ctx =
          Some (if authenticated ctx then imported n pv args ctx else Inl NotAuthenticated))"
proof (intro conjI)
  show "filter (unguarded_in resolvers_Query) read_ops = [''joinSession'', ''sessionPublic'']"
    by (simp add: read_ops_def unguarded_in_def query_session_entries)
  show "filter (guarded_in resolvers_Query) read_ops =
          [''allSessions'', ''runningSession'', ''session'']"
    by (simp add: read_ops_def guarded_in_def query_session_entries)
qed (simp_all add: invoke_def requireAuth_def query_session_entries)

theorem anonymous_reads_exactly_two_witness:
  "''runningSession'' \<in> {''allSessions'', ''runningSession'', ''session''} \<and>
   invoke (\<lambda>c. c) (\<lambda>f (pv::unit) (args::unit) (c::bool). Inr f) resolvers_Query
     ''runningSession'' () () False = Some (Inl NotAuthenticated) \<and>
   invoke (\<lambda>c. c) (\<lambda>f (pv::unit) (args::unit) (c::bool). Inr f) resolvers_Query
     ''sessionPublic'' () () False = Some (Inr ''session'')"
proof -
  have m: "''runningSession'' \<in> {''allSessions'', ''runningSession'', ''session''}"
    by simp
  note t = anonymous_reads_exactly_two [THEN conjunct2, THEN conjunct2]
  note g = t [THEN conjunct2, THEN bspec, OF m]
  note u = t [THEN conjunct1]
  show ?thesis using m by (simp add: g u)
qed

text \<open>
  C3. The two subscription channels are bound in \<open>resolvers.Subscription\<close> to the bare
  imported resolvers: what a subscriber's registration produces is what the imported
  resolver produces, for every authenticated-owner predicate, so the outcome cannot
  depend on it.
\<close>

theorem subscriptions_not_guarded:
  "map fst resolvers_Subscription = subscription_ops \<and>
   (\<forall>n \<in> set subscription_ops.
      map_of resolvers_Subscription n = Some (Ref n) \<and>
      (\<forall>authenticated imported pv args ctx.
         invoke authenticated imported resolvers_Subscription n pv args ctx =
           Some (imported n pv args ctx)))"
proof (intro conjI)
  show "map fst resolvers_Subscription = subscription_ops"
    by (simp add: resolvers_Subscription_def subscription_ops_def)
qed (use subscription_entries in \<open>simp add: invoke_def\<close>)

theorem subscriptions_not_guarded_witness:
  "''confusionAdded'' \<in> set subscription_ops \<and>
   invoke (\<lambda>c. False) (\<lambda>f (pv::unit) (args::unit) (c::unit). Inr f) resolvers_Subscription
     ''confusionAdded'' () () () = Some (Inr ''confusionAdded'') \<and>
   invoke (\<lambda>c. True) (\<lambda>f (pv::unit) (args::unit) (c::unit). Inr f) resolvers_Subscription
     ''confusionAdded'' () () () = Some (Inr ''confusionAdded'')"
proof -
  have m: "''confusionAdded'' \<in> set subscription_ops"
    by (simp add: subscription_ops_def)
  note u = subscriptions_not_guarded [THEN conjunct2, THEN bspec, OF m, THEN conjunct2]
  show ?thesis using m by (simp add: u)
qed

text \<open>
  C8. \<open>session\<close> and \<open>sessionPublic\<close> are bound to the same imported resolver function
  \<open>session\<close>; the entry of \<open>session\<close> is the entry of \<open>sessionPublic\<close> wrapped in
  \<open>requireAuth\<close>. Whenever the guard passes, executing either gives the same result.
\<close>

theorem sessionPublic_is_unguarded_session:
  "map_of resolvers_Query ''sessionPublic'' = Some (Ref ''session'') \<and>
   map_of resolvers_Query ''session'' = Some (RequireAuth (Ref ''session'')) \<and>
   (\<forall>authenticated imported pv args ctx.
      invoke authenticated imported resolvers_Query ''sessionPublic'' pv args ctx =
        Some (imported ''session'' pv args ctx) \<and>
      (authenticated ctx \<longrightarrow>
         invoke authenticated imported resolvers_Query ''session'' pv args ctx =
         invoke authenticated imported resolvers_Query ''sessionPublic'' pv args ctx))"
  by (simp add: invoke_def requireAuth_def query_session_entries)

theorem sessionPublic_is_unguarded_session_witness:
  "invoke (\<lambda>c. c) (\<lambda>f (pv::unit) (args::nat) (c::bool). Inr (f, args)) resolvers_Query
     ''session'' () 7 True =
   invoke (\<lambda>c. c) (\<lambda>f (pv::unit) (args::nat) (c::bool). Inr (f, args)) resolvers_Query
     ''sessionPublic'' () 7 True \<and>
   invoke (\<lambda>c. c) (\<lambda>f (pv::unit) (args::nat) (c::bool). Inr (f, args)) resolvers_Query
     ''sessionPublic'' () 7 True = Some (Inr (''session'', 7))"
proof -
  note t = sessionPublic_is_unguarded_session [THEN conjunct2, THEN conjunct2, rule_format]
  have a: "(\<lambda>c::bool. c) True" by simp
  show ?thesis
    by (simp add: t [THEN conjunct2, THEN mp, of "\<lambda>c. c" True, OF a] t [THEN conjunct1])
qed

section \<open>Properties of the type definitions\<close>

lemma mutation_field_names:
  "map fname typeDefs_Mutation =
   [''activateAccount'', ''activateNextBlock'', ''addConfusionTS'', ''addFeedback'',
    ''addResponse'', ''archiveQuestions'', ''changePassword'', ''createQuestion'',
    ''createSession'', ''createUser'', ''deleteFeedback'', ''deleteQuestions'',
    ''deleteResponse'', ''deleteSessions'', ''endSession'', ''login'', ''logout'',
    ''modifyQuestion'', ''modifySession'', ''modifyUser'', ''pauseSession'',
    ''cancelSession'', ''requestAccountDeletion'', ''resolveAccountDeletion'',
    ''requestPassword'', ''requestPresignedURL'', ''startSession'',
    ''updateSessionSettings'']"
  by (simp add: typeDefs_Mutation_def fld_def)

lemma mutation_resolver_names:
  "map fst resolvers_Mutation =
   [''activateAccount'', ''archiveQuestions'', ''addFeedback'', ''deleteFeedback'',
    ''addConfusionTS'', ''addResponse'', ''changePassword'', ''createQuestion'',
    ''createSession'', ''createUser'', ''deleteQuestions'', ''deleteResponse'',
    ''deleteSessions'', ''endSession'', ''login'', ''logout'', ''modifyQuestion'',
    ''modifySession'', ''modifyUser'', ''pauseSession'', ''cancelSession'',
    ''requestAccountDeletion'', ''resolveAccountDeletion'', ''requestPassword'',
    ''requestPresignedURL'', ''startSession'', ''updateSessionSettings'',
    ''activateNextBlock'']"
  by (simp add: resolvers_Mutation_def)

lemma write_ops_declared_once:
  "\<forall>n \<in> set write_ops. count_list (map fname typeDefs_Mutation) n = 1"
  unfolding mutation_field_names by (simp add: write_ops_def)

lemma write_ops_resolved_once:
  "\<forall>n \<in> set write_ops. count_list (map fst resolvers_Mutation) n = 1"
  unfolding mutation_resolver_names by (simp add: write_ops_def)

lemma write_ops_targets:
  "\<forall>n \<in> set write_ops. map_option target (map_of resolvers_Mutation n) = Some n"
  by (simp add: write_ops_def resolvers_Mutation_def)

text \<open>
  C5. The fourteen write operations are fourteen different names; each is declared
  exactly once as a field of \<open>type Mutation\<close> and bound exactly once in
  \<open>resolvers.Mutation\<close>, to the imported resolver of the same name (guarded or not).
  \<open>addConfusionTS\<close> takes \<open>(fp, sessionId, difficulty, speed)\<close> and \<open>addFeedback\<close> takes
  \<open>(fp, sessionId, content)\<close>, \<open>fp\<close> being the participant's fingerprint.
\<close>

theorem write_ops_are_mutations:
  "length write_ops = 14 \<and> distinct write_ops \<and>
   (\<forall>n \<in> set write_ops.
      count_list (map fname typeDefs_Mutation) n = 1 \<and>
      count_list (map fst resolvers_Mutation) n = 1 \<and>
      map_option target (map_of resolvers_Mutation n) = Some n) \<and>
   map_option fargs (field_of typeDefs_Mutation ''addConfusionTS'') =
     Some [(''fp'', ID_t), (''sessionId'', NonNull ID_t), (''difficulty'', NonNull Int_t),
           (''speed'', NonNull Int_t)] \<and>
   map_option fargs (field_of typeDefs_Mutation ''addFeedback'') =
     Some [(''fp'', ID_t), (''sessionId'', NonNull ID_t), (''content'', NonNull String_t)]"
proof (intro conjI)
  show "length write_ops = 14" by (simp add: write_ops_def)
  show "distinct write_ops" by (simp add: write_ops_def)
  show "\<forall>n \<in> set write_ops.
      count_list (map fname typeDefs_Mutation) n = 1 \<and>
      count_list (map fst resolvers_Mutation) n = 1 \<and>
      map_option target (map_of resolvers_Mutation n) = Some n"
    using write_ops_declared_once write_ops_resolved_once write_ops_targets by blast
  show "map_option fargs (field_of typeDefs_Mutation ''addConfusionTS'') =
     Some [(''fp'', ID_t), (''sessionId'', NonNull ID_t), (''difficulty'', NonNull Int_t),
           (''speed'', NonNull Int_t)]"
    by (simp add: field_of_def typeDefs_Mutation_def fld_def)
  show "map_option fargs (field_of typeDefs_Mutation ''addFeedback'') =
     Some [(''fp'', ID_t), (''sessionId'', NonNull ID_t), (''content'', NonNull String_t)]"
    by (simp add: field_of_def typeDefs_Mutation_def fld_def)
qed

theorem write_ops_are_mutations_witness:
  "''addConfusionTS'' \<in> set write_ops \<and>
   count_list (map fname typeDefs_Mutation) ''addConfusionTS'' = 1 \<and>
   count_list (map fst resolvers_Mutation) ''addConfusionTS'' = 1 \<and>
   map_option target (map_of resolvers_Mutation ''addConfusionTS'') = Some ''addConfusionTS''"
proof -
  have m: "''addConfusionTS'' \<in> set write_ops"
    by (simp add: write_ops_def)
  note t = write_ops_are_mutations [THEN conjunct2, THEN conjunct2, THEN conjunct1]
  show ?thesis using m t [THEN bspec, OF m] by simp
qed

text \<open>
  C6. \<open>type Subscription\<close> declares exactly the two fields \<open>confusionAdded\<close> and
  \<open>feedbackAdded\<close>, the same two that \<open>resolvers.Subscription\<close> binds; each takes the one
  argument \<open>sessionId: ID!\<close>, which is required, so a subscription is addressed by the
  channel's name and a session id.
\<close>

theorem two_subscription_channels:
  "map fname typeDefs_Subscription = [''confusionAdded'', ''feedbackAdded''] \<and>
   map fst resolvers_Subscription = map fname typeDefs_Subscription \<and>
   (\<forall>f \<in> set typeDefs_Subscription.
      fargs f = [(''sessionId'', NonNull ID_t)] \<and> required_args f = [''sessionId''])"
  by (simp add: typeDefs_Subscription_def resolvers_Subscription_def fld_def required_args_def)

theorem two_subscription_channels_witness:
  "fld ''feedbackAdded'' [(''sessionId'', NonNull ID_t)] (Named ''Session_Feedback'')
     \<in> set typeDefs_Subscription \<and>
   required_args (fld ''feedbackAdded'' [(''sessionId'', NonNull ID_t)] (Named ''Session_Feedback''))
     = [''sessionId'']"
proof -
  have m: "fld ''feedbackAdded'' [(''sessionId'', NonNull ID_t)] (Named ''Session_Feedback'')
     \<in> set typeDefs_Subscription"
    by (simp add: typeDefs_Subscription_def)
  note t = two_subscription_channels [THEN conjunct2, THEN conjunct2, THEN bspec, OF m]
  show ?thesis using m t by simp
qed

section \<open>Properties of the result type resolver\<close>

lemma aggregate_truthy: "is_aggregate v \<Longrightarrow> truthy v"
  by (cases v) simp_all

lemma absent_not_truthy: "\<not> has_prop obj k \<Longrightarrow> \<not> truthy (get_prop obj k)"
  by (simp add: has_prop_def get_prop_def)

text \<open>
  C4. The resolver answers with one of three fixed values: the free-text type, the
  choice-count type, or no type. For every results object (one that carries at most one
  of the tags \<open>FREE\<close> and \<open>CHOICES\<close>, holding a list or a mapping) it resolves to the
  free-text type when the \<open>FREE\<close> tag is present, to the choice-count type when the
  \<open>CHOICES\<close> tag is present, and to no type otherwise; so the type it resolves to is
  decided by the tag alone.
\<close>

theorem resolveType_by_tag:
  "QuestionInstance_Results_resolveType obj \<in>
     {None, Some ''FREEQuestionResults'', Some ''SCQuestionResults''} \<and>
   (results_object obj \<longrightarrow>
      QuestionInstance_Results_resolveType obj =
        (if has_prop obj ''FREE'' then Some ''FREEQuestionResults''
         else if has_prop obj ''CHOICES'' then Some ''SCQuestionResults''
         else None) \<and>
      (has_prop obj ''CHOICES'' \<longrightarrow>
         QuestionInstance_Results_resolveType obj = Some ''SCQuestionResults''))"
proof (intro conjI impI)
  show "QuestionInstance_Results_resolveType obj \<in>
     {None, Some ''FREEQuestionResults'', Some ''SCQuestionResults''}"
    by (simp add: QuestionInstance_Results_resolveType_def)
next
  assume r: "results_object obj"
  show "QuestionInstance_Results_resolveType obj =
        (if has_prop obj ''FREE'' then Some ''FREEQuestionResults''
         else if has_prop obj ''CHOICES'' then Some ''SCQuestionResults''
         else None)"
    using r aggregate_truthy absent_not_truthy
    by (auto simp add: QuestionInstance_Results_resolveType_def results_object_def)
next
  assume r: "results_object obj" and c: "has_prop obj ''CHOICES''"
  then have "\<not> has_prop obj ''FREE''" and "is_aggregate (get_prop obj ''CHOICES'')"
    by (simp_all add: results_object_def)
  then have "\<not> truthy (get_prop obj ''FREE'')" and "truthy (get_prop obj ''CHOICES'')"
    by (simp_all add: aggregate_truthy absent_not_truthy)
  then show "QuestionInstance_Results_resolveType obj = Some ''SCQuestionResults''"
    by (simp add: QuestionInstance_Results_resolveType_def)
qed

theorem resolveType_by_tag_witness:
  "results_object [(''CHOICES'', JArr [JNum 3, JNum 1])] \<and>
   has_prop [(''CHOICES'', JArr [JNum 3, JNum 1])] ''CHOICES'' \<and>
   QuestionInstance_Results_resolveType [(''CHOICES'', JArr [JNum 3, JNum 1])]
     = Some ''SCQuestionResults'' \<and>
   results_object [(''FREE'', JArr [JStr ''yes'', JStr ''no''])] \<and>
   has_prop [(''FREE'', JArr [JStr ''yes'', JStr ''no''])] ''FREE'' \<and>
   QuestionInstance_Results_resolveType [(''FREE'', JArr [JStr ''yes'', JStr ''no''])]
     = Some ''FREEQuestionResults'' \<and>
   results_object [] \<and>
   QuestionInstance_Results_resolveType [] = None"
proof -
  let ?c = "[(''CHOICES'', JArr [JNum 3, JNum 1])]"
  let ?f = "[(''FREE'', JArr [JStr ''yes'', JStr ''no''])]"
  have rc: "results_object ?c" and hc: "has_prop ?c ''CHOICES''"
    by (simp_all add: results_object_def has_prop_def get_prop_def)
  have rf: "results_object ?f" and hf: "has_prop ?f ''FREE''"
    by (simp_all add: results_object_def has_prop_def get_prop_def)
  have re: "results_object []"
    by (simp add: results_object_def has_prop_def)
  have he: "\<not> has_prop [] ''FREE'' \<and> \<not> has_prop [] ''CHOICES''"
    by (simp add: has_prop_def)
  note t = resolveType_by_tag [THEN conjunct2, THEN mp]
  have c: "QuestionInstance_Results_resolveType ?c = Some ''SCQuestionResults''"
    using t [OF rc, THEN conjunct2] hc by blast
  have f: "QuestionInstance_Results_resolveType ?f = Some ''FREEQuestionResults''"
    using t [OF rf, THEN conjunct1] hf by simp
  have e: "QuestionInstance_Results_resolveType [] = None"
    using t [OF re, THEN conjunct1] he by simp
  from rc hc c rf hf f re e show ?thesis by (intro conjI)
qed

section \<open>Properties of joining\<close>

lemma joinPublic_Some:
  assumes "joinPublic public sessions code = Some p"
  shows "\<exists>s \<in> set sessions.
           same_code (joinCode s) code \<and> (status s = RUNNING \<or> status s = PAUSED) \<and>
           p = public s"
proof -
  from assms obtain s where
    f: "find (\<lambda>s. same_code (joinCode s) code) sessions = Some s"
    and r: "status s = RUNNING \<or> status s = PAUSED" and p: "p = public s"
    by (auto simp: joinPublic_def split: option.splits if_splits)
  from f have "s \<in> set sessions" and "same_code (joinCode s) code"
    by (auto simp: find_Some_iff)
  with r p show ?thesis by blast
qed

text \<open>
  C7. \<open>joinSession\<close> is declared with one required argument \<open>shortname\<close> and the
  nullable result type \<open>Session_Public\<close>, and bound to the bare resolver, so every
  caller reaches it. With the lookup as the spec describes it, a payload comes back
  only as the public projection of a session whose code matches and whose status is
  RUNNING or PAUSED; when the session the code finds is CREATED, ENDED or CANCELLED, or
  when the code finds none, the result is not-found.
\<close>

theorem joinSession_only_running_or_paused:
  "map_option (\<lambda>f. (fargs f, ftype f)) (field_of typeDefs_Query ''joinSession'') =
     Some ([(''shortname'', NonNull String_t)], Named ''Session_Public'') \<and>
   (\<forall>authenticated pv ctx.
      invoke authenticated (\<lambda>f pv code ctx. Inr (joinPublic public sessions code))
        resolvers_Query ''joinSession'' pv code ctx
        = Some (Inr (joinPublic public sessions code))) \<and>
   (\<forall>p. joinPublic public sessions code = Some p \<longrightarrow>
      (\<exists>s \<in> set sessions.
         same_code (joinCode s) code \<and> (status s = RUNNING \<or> status s = PAUSED) \<and>
         p = public s)) \<and>
   (\<forall>s. find (\<lambda>s. same_code (joinCode s) code) sessions = Some s \<longrightarrow>
      (if status s \<in> {RUNNING, PAUSED} then joinPublic public sessions code = Some (public s)
       else joinPublic public sessions code = None)) \<and>
   (find (\<lambda>s. same_code (joinCode s) code) sessions = None \<longrightarrow>
      joinPublic public sessions code = None)"
proof -
  have a: "map_option (\<lambda>f. (fargs f, ftype f)) (field_of typeDefs_Query ''joinSession'') =
     Some ([(''shortname'', NonNull String_t)], Named ''Session_Public'')"
    by (simp add: field_of_def typeDefs_Query_def fld_def)
  have b: "\<forall>authenticated pv ctx.
      invoke authenticated (\<lambda>f pv code ctx. Inr (joinPublic public sessions code))
        resolvers_Query ''joinSession'' pv code ctx
        = Some (Inr (joinPublic public sessions code))"
    by (simp add: invoke_def query_session_entries)
  have c: "\<forall>p. joinPublic public sessions code = Some p \<longrightarrow>
      (\<exists>s \<in> set sessions.
         same_code (joinCode s) code \<and> (status s = RUNNING \<or> status s = PAUSED) \<and>
         p = public s)"
  proof (intro allI impI)
    fix p assume "joinPublic public sessions code = Some p"
    then show "\<exists>s \<in> set sessions.
         same_code (joinCode s) code \<and> (status s = RUNNING \<or> status s = PAUSED) \<and>
         p = public s"
      by (rule joinPublic_Some)
  qed
  have d: "\<forall>s. find (\<lambda>s. same_code (joinCode s) code) sessions = Some s \<longrightarrow>
      (if status s \<in> {RUNNING, PAUSED} then joinPublic public sessions code = Some (public s)
       else joinPublic public sessions code = None)"
    by (simp add: joinPublic_def)
  have e: "find (\<lambda>s. same_code (joinCode s) code) sessions = None \<longrightarrow>
      joinPublic public sessions code = None"
    by (simp add: joinPublic_def)
  show ?thesis
    apply (intro conjI)
        apply (rule a)
       apply (rule b)
      apply (rule c)
     apply (rule d)
    apply (rule e)
    done
qed


theorem joinSession_only_running_or_paused_witness:
  "find (\<lambda>s. same_code (joinCode s) ''aBC'')
     [\<lparr>sessionId = ''s1'', owner = ''u'', joinCode = ''Abc'', blocks = ([]::unit list),
        activeBlock = Some 0, status = PAUSED\<rparr>,
      \<lparr>sessionId = ''s2'', owner = ''u'', joinCode = ''xyz'', blocks = [],
        activeBlock = None, status = ENDED\<rparr>]
     = Some \<lparr>sessionId = ''s1'', owner = ''u'', joinCode = ''Abc'', blocks = [],
        activeBlock = Some 0, status = PAUSED\<rparr> \<and>
   joinPublic sessionId
     [\<lparr>sessionId = ''s1'', owner = ''u'', joinCode = ''Abc'', blocks = ([]::unit list),
        activeBlock = Some 0, status = PAUSED\<rparr>,
      \<lparr>sessionId = ''s2'', owner = ''u'', joinCode = ''xyz'', blocks = [],
        activeBlock = None, status = ENDED\<rparr>] ''aBC'' = Some ''s1'' \<and>
   find (\<lambda>s. same_code (joinCode s) ''XYZ'')
     [\<lparr>sessionId = ''s1'', owner = ''u'', joinCode = ''Abc'', blocks = ([]::unit list),
        activeBlock = Some 0, status = PAUSED\<rparr>,
      \<lparr>sessionId = ''s2'', owner = ''u'', joinCode = ''xyz'', blocks = [],
        activeBlock = None, status = ENDED\<rparr>]
     = Some \<lparr>sessionId = ''s2'', owner = ''u'', joinCode = ''xyz'', blocks = [],
        activeBlock = None, status = ENDED\<rparr> \<and>
   joinPublic sessionId
     [\<lparr>sessionId = ''s1'', owner = ''u'', joinCode = ''Abc'', blocks = ([]::unit list),
        activeBlock = Some 0, status = PAUSED\<rparr>,
      \<lparr>sessionId = ''s2'', owner = ''u'', joinCode = ''xyz'', blocks = [],
        activeBlock = None, status = ENDED\<rparr>] ''XYZ'' = None"
proof -
  let ?s1 = "\<lparr>sessionId = ''s1'', owner = ''u'', joinCode = ''Abc'', blocks = ([]::unit list),
        activeBlock = Some 0, status = PAUSED\<rparr>"
  let ?s2 = "\<lparr>sessionId = ''s2'', owner = ''u'', joinCode = ''xyz'', blocks = ([]::unit list),
        activeBlock = None, status = ENDED\<rparr>"
  have f1: "find (\<lambda>s. same_code (joinCode s) ''aBC'') [?s1, ?s2] = Some ?s1"
    by (simp add: same_code_def lower_def)
  have f2: "find (\<lambda>s. same_code (joinCode s) ''XYZ'') [?s1, ?s2] = Some ?s2"
    by (simp add: same_code_def lower_def)
  note t1 = joinSession_only_running_or_paused
    [where 'b = unit and public = sessionId and sessions = "[?s1, ?s2]" and code = "''aBC''",
     THEN conjunct2, THEN conjunct2, THEN conjunct2, THEN conjunct1, rule_format, OF f1]
  note t2 = joinSession_only_running_or_paused
    [where 'b = unit and public = sessionId and sessions = "[?s1, ?s2]" and code = "''XYZ''",
     THEN conjunct2, THEN conjunct2, THEN conjunct2, THEN conjunct1, rule_format, OF f2]
  have j1: "joinPublic sessionId [?s1, ?s2] ''aBC'' = Some ''s1''"
    using t1 by simp
  have j2: "joinPublic sessionId [?s1, ?s2] ''XYZ'' = None"
    using t2 by simp
  from f1 j1 f2 j2 show ?thesis by (intro conjI)
qed

section \<open>Properties of the server\<close>





lemma startup_exit:
  assumes "env ''MONGO_URL'' = None \<or> env ''JWT_SECRET'' = None"
  shows "\<exists>msg. startup env = [Warn msg, Exit 1]"
  using assms by (auto simp: startup_def getenv_def split: option.splits)

lemma startup_listen:
  assumes "Listen p \<in> set (startup env)"
  shows "p = 3000 \<and> truthy (getenv env ''MONGO_URL'') \<and> truthy (getenv env ''JWT_SECRET'')"
  using assms by (auto simp: startup_def split: if_splits)

text \<open>
  C10. If \<open>MONGO_URL\<close> or \<open>JWT_SECRET\<close> is absent from the environment, start-up does
  exactly two things: it prints one warning and exits with code 1; it neither connects
  to the database nor mounts the endpoint nor listens. Start-up listens, on port 3000
  only, only when both variables are set (and non-empty); and when both are set and
  non-empty it does connect, mount and listen, without exiting.
\<close>

theorem startup_requires_env:
  "(env ''MONGO_URL'' = None \<or> env ''JWT_SECRET'' = None \<longrightarrow>
      (\<exists>msg. startup env = [Warn msg, Exit 1])) \<and>
   (\<forall>p. Listen p \<in> set (startup env) \<longrightarrow>
      p = 3000 \<and> (\<exists>u s. env ''MONGO_URL'' = Some u \<and> u \<noteq> [] \<and>
                         env ''JWT_SECRET'' = Some s \<and> s \<noteq> [])) \<and>
   (\<forall>u s. env ''MONGO_URL'' = Some u \<and> u \<noteq> [] \<and> env ''JWT_SECRET'' = Some s \<and> s \<noteq> [] \<longrightarrow>
      startup env = [Connect (''mongodb://'' @ u), Use ''/graphql'', Listen 3000])"
proof (intro conjI allI impI)
  assume "env ''MONGO_URL'' = None \<or> env ''JWT_SECRET'' = None"
  then show "\<exists>msg. startup env = [Warn msg, Exit 1]"
    by (rule startup_exit)
next
  fix p assume l: "Listen p \<in> set (startup env)"
  then show "p = 3000"
    using startup_listen by blast
  from l have "truthy (getenv env ''MONGO_URL'')" and "truthy (getenv env ''JWT_SECRET'')"
    using startup_listen by blast+
  then show "\<exists>u s. env ''MONGO_URL'' = Some u \<and> u \<noteq> [] \<and>
                         env ''JWT_SECRET'' = Some s \<and> s \<noteq> []"
    by (auto simp: getenv_def split: option.splits)
next
  fix u s
  assume "env ''MONGO_URL'' = Some u \<and> u \<noteq> [] \<and> env ''JWT_SECRET'' = Some s \<and> s \<noteq> []"
  then show "startup env = [Connect (''mongodb://'' @ u), Use ''/graphql'', Listen 3000]"
    by (simp add: startup_def getenv_def)
qed

theorem startup_requires_env_witness:
  "[''MONGO_URL'' \<mapsto> ''db:27017/klicker''] ''JWT_SECRET'' = None \<and>
   startup [''MONGO_URL'' \<mapsto> ''db:27017/klicker'']
     = [Warn ''> Error: Please pass the JWT_SECRET as an environment variable.'', Exit 1] \<and>
   Listen 3000 \<in> set (startup [''MONGO_URL'' \<mapsto> ''db'', ''JWT_SECRET'' \<mapsto> ''s'']) \<and>
   startup [''MONGO_URL'' \<mapsto> ''db'', ''JWT_SECRET'' \<mapsto> ''s'']
     = [Connect ''mongodb://db'', Use ''/graphql'', Listen 3000]"
proof -
  let ?e1 = "[''MONGO_URL'' \<mapsto> ''db:27017/klicker'']"
  let ?e2 = "[''MONGO_URL'' \<mapsto> ''db'', ''JWT_SECRET'' \<mapsto> ''s'']"
  have a: "?e1 ''MONGO_URL'' = None \<or> ?e1 ''JWT_SECRET'' = None"
    by simp
  have b: "?e2 ''MONGO_URL'' = Some ''db'' \<and> ''db'' \<noteq> [] \<and>
           ?e2 ''JWT_SECRET'' = Some ''s'' \<and> ''s'' \<noteq> []"
    by simp
  from startup_requires_env [of ?e1, THEN conjunct1, rule_format, OF a]
  obtain msg where m: "startup ?e1 = [Warn msg, Exit 1]" by blast
  have m': "startup ?e1
     = [Warn ''> Error: Please pass the JWT_SECRET as an environment variable.'', Exit 1]"
    using m by (simp add: startup_def getenv_def)
  have s: "startup ?e2 = [Connect ''mongodb://db'', Use ''/graphql'', Listen 3000]"
    using startup_requires_env [of ?e2, THEN conjunct2, THEN conjunct2, rule_format, OF b]
    by simp
  have l: "Listen 3000 \<in> set (startup ?e2)"
    by (simp add: s)
  have n: "?e1 ''JWT_SECRET'' = None" by simp
  from n m' l s show ?thesis by (intro conjI)
qed

end
